theory Spec2Isabelle
  imports Complex_Main "HOL-Library.Sublist" "HOL-Library.Char_ord" "HOL-Library.List_Lexorder"
begin

section \<open>Exceptions\<close>

text \<open>
  Every Python exception that one of the modelled functions can let escape is a value of
  \<open>exn\<close>; a function that may raise returns \<open>exn + 'a\<close>, with \<open>Inl\<close> for the raise.
\<close>

datatype exn =
    KeyError string
  | TypeError string
  | ValueError string
  | NameError string
  | ParserError string
  | ArgumentTypeError string

section \<open>Substring tests\<close>

text \<open>
  Python's \<open>word in x\<close> on strings, and \<open>Series.str.contains\<close> with a pattern that has
  no metacharacter, both ask whether one string occurs contiguously inside another.
\<close>

fun startswith :: "string \<Rightarrow> string \<Rightarrow> bool" where
  "startswith s [] = True"
| "startswith [] (p # ps) = False"
| "startswith (c # cs) (p # ps) = (c = p \<and> startswith cs ps)"

fun str_contains :: "string \<Rightarrow> string \<Rightarrow> bool" where
  "str_contains [] pat = (pat = [])"
| "str_contains (c # cs) pat = (startswith (c # cs) pat \<or> str_contains cs pat)"

section \<open>linkedin.py: tables of untyped cells\<close>

text \<open>
  The LinkedIn exports are read into pandas DataFrames whose columns are chosen by the caller
  at run time. A table is the set of its column labels and the list of its rows, each row
  a map from a column label to a cell, so the labels of a table are distinct, as they are
  in a table read from a CSV file. A missing value (pandas' NaN) is the cell \<open>NaN\<close>.

  In linkedin.py the header of \<open>open_linkedin\<close> is followed by no body. The functions
  after it are modelled as they are written.
\<close>

datatype cell = Str string | Num int | NaN

type_synonym row = "string \<rightharpoonup> cell"

record frame =
  columns :: "string set"
  rows :: "row list"

definition cell_at :: "row \<Rightarrow> string \<Rightarrow> cell" where
  "cell_at r c = (case r c of Some v \<Rightarrow> v | None \<Rightarrow> NaN)"

text \<open>\<open>df[c]\<close>: the column as a series, or KeyError when the table has no such column.\<close>

definition getitem :: "frame \<Rightarrow> string \<Rightarrow> exn + cell list" where
  "getitem df c =
     (if c \<in> columns df then Inr (map (\<lambda>r. cell_at r c) (rows df)) else Inl (KeyError c))"

text \<open>\<open>series == s\<close>: the elementwise comparison with a string; NaN compares unequal.\<close>

definition series_eq :: "cell list \<Rightarrow> string \<Rightarrow> bool list" where
  "series_eq ser s = map (\<lambda>v. v = Str s) ser"

text \<open>\<open>df[mask]\<close>: the rows at which the boolean series is true, in their order.\<close>

definition mask_rows :: "frame \<Rightarrow> bool list \<Rightarrow> frame" where
  "mask_rows df m = df\<lparr>rows := map fst (filter snd (zip (rows df) m))\<rparr>"

definition get_sent_receive_invites :: "frame \<Rightarrow> string \<Rightarrow> exn + (frame \<times> frame)" where
  "get_sent_receive_invites df direction_column =
     (case getitem df direction_column of
        Inl e \<Rightarrow> Inl e
      | Inr s1 \<Rightarrow>
          (let invites_sent = mask_rows df (series_eq s1 ''OUTGOING'') in
           case getitem df direction_column of
             Inl e \<Rightarrow> Inl e
           | Inr s2 \<Rightarrow>
               (let invites_received = mask_rows df (series_eq s2 ''INCOMING'') in
                Inr (invites_sent, invites_received))))"

subsection \<open>import_recruiters_contacts\<close>

text \<open>
  \<open>read_safely\<close> is called by \<open>import_recruiters_contacts\<close> but is neither defined nor
  imported in linkedin.py, so it is a parameter of the model: a function from a path to
  the table read there, or to the exception the call ends in.

  The lambda applied to the Position column evaluates \<open>word in x\<close>, which needs \<open>x\<close> to be
  a string: on a number Python raises TypeError. \<open>dropna\<close> removes the missing values
  before \<open>apply\<close> runs, and the assignment back aligns on the index, so a row whose Position
  was missing keeps NaN.
\<close>

definition words :: "string list" where
  "words = [''Recruiter'', ''Talent'', ''Sourcer'', ''Recruiting'']"

definition relabel :: "cell \<Rightarrow> exn + cell" where
  "relabel x =
     (case x of
        NaN \<Rightarrow> Inr NaN
      | Num n \<Rightarrow> Inl (TypeError ''argument of type 'int' is not iterable'')
      | Str s \<Rightarrow> Inr (if list_ex (\<lambda>word. str_contains s word) words then Str ''Recruiter'' else Str s))"

fun apply_series :: "(cell \<Rightarrow> exn + cell) \<Rightarrow> cell list \<Rightarrow> exn + cell list" where
  "apply_series f [] = Inr []"
| "apply_series f (x # xs) =
     (case f x of
        Inl e \<Rightarrow> Inl e
      | Inr y \<Rightarrow> (case apply_series f xs of Inl e \<Rightarrow> Inl e | Inr ys \<Rightarrow> Inr (y # ys)))"

text \<open>What the lambda makes of a cell that is not a number.\<close>

definition relabelled :: "cell \<Rightarrow> cell" where
  "relabelled x =
     (case x of
        Str s \<Rightarrow> if list_ex (\<lambda>word. str_contains s word) words then Str ''Recruiter'' else Str s
      | _ \<Rightarrow> x)"

text \<open>\<open>df[c] = series\<close> for a column the table already has.\<close>

definition setitem :: "frame \<Rightarrow> string \<Rightarrow> cell list \<Rightarrow> frame" where
  "setitem df c ser = df\<lparr>rows := map (\<lambda>(r, v). r(c \<mapsto> v)) (zip (rows df) ser)\<rparr>"

definition import_recruiters_contacts ::
  "(string \<Rightarrow> exn + frame) \<Rightarrow> string \<Rightarrow> exn + frame" where
  "import_recruiters_contacts read_safely path =
     (case read_safely ''./connections.csv'' of
        Inl e \<Rightarrow> Inl e
      | Inr contacts_df \<Rightarrow>
          (case getitem contacts_df ''Position'' of
             Inl e \<Rightarrow> Inl e
           | Inr position \<Rightarrow>
               (case apply_series relabel position of
                  Inl e \<Rightarrow> Inl e
                | Inr position' \<Rightarrow>
                    (let contacts_df' = setitem contacts_df ''Position'' position' in
                     case getitem contacts_df' ''Position'' of
                       Inl e \<Rightarrow> Inl e
                     | Inr s \<Rightarrow> Inr (mask_rows contacts_df' (series_eq s ''Recruiter''))))))"

section \<open>gcal.py: regular expressions\<close>

text \<open>
  The grouping rules hold compiled patterns of Python's \<open>re\<close> module. A pattern is modelled
  by its regular core: the empty language, the empty string, one character, \<open>.\<close> (any
  character but a newline), alternation, concatenation and iteration. \<open>accepts r w\<close> says
  that the whole of \<open>w\<close> is in the language of \<open>r\<close>.
\<close>

datatype rexp = Zero | One | Atom char | Dot | Alt rexp rexp | Seq rexp rexp | Star rexp

inductive accepts :: "rexp \<Rightarrow> string \<Rightarrow> bool" where
  acc_One: "accepts One []"
| acc_Atom: "accepts (Atom c) [c]"
| acc_Dot: "c \<noteq> CHR 0x0A \<Longrightarrow> accepts Dot [c]"
| acc_AltL: "accepts r w \<Longrightarrow> accepts (Alt r s) w"
| acc_AltR: "accepts s w \<Longrightarrow> accepts (Alt r s) w"
| acc_Seq: "accepts r u \<Longrightarrow> accepts s v \<Longrightarrow> accepts (Seq r s) (u @ v)"
| acc_StarNil: "accepts (Star r) []"
| acc_StarStep: "accepts r u \<Longrightarrow> accepts (Star r) v \<Longrightarrow> accepts (Star r) (u @ v)"

text \<open>The matcher runs on derivatives: \<open>deriv c r\<close> accepts what \<open>r\<close> accepts after a \<open>c\<close>.\<close>

fun nullable :: "rexp \<Rightarrow> bool" where
  "nullable Zero = False"
| "nullable One = True"
| "nullable (Atom c) = False"
| "nullable Dot = False"
| "nullable (Alt r s) = (nullable r \<or> nullable s)"
| "nullable (Seq r s) = (nullable r \<and> nullable s)"
| "nullable (Star r) = True"

fun deriv :: "char \<Rightarrow> rexp \<Rightarrow> rexp" where
  "deriv c Zero = Zero"
| "deriv c One = Zero"
| "deriv c (Atom a) = (if a = c then One else Zero)"
| "deriv c Dot = (if c = CHR 0x0A then Zero else One)"
| "deriv c (Alt r s) = Alt (deriv c r) (deriv c s)"
| "deriv c (Seq r s) =
     (if nullable r then Alt (Seq (deriv c r) s) (deriv c s) else Seq (deriv c r) s)"
| "deriv c (Star r) = Seq (deriv c r) (Star r)"

text \<open>
  \<open>pattern.fullmatch(s)\<close> succeeds when the whole string is accepted.
  \<open>pattern.match(s)\<close>, the call \<open>_group\<close> makes, succeeds as soon as the pattern is
  satisfied by a part of the string that begins at its first character. The match object
  it returns is truthy even when the matched part is empty.
\<close>

fun re_fullmatch :: "rexp \<Rightarrow> string \<Rightarrow> bool" where
  "re_fullmatch r [] = nullable r"
| "re_fullmatch r (c # cs) = re_fullmatch (deriv c r) cs"

fun re_match :: "rexp \<Rightarrow> string \<Rightarrow> bool" where
  "re_match r [] = nullable r"
| "re_match r (c # cs) = (nullable r \<or> re_match (deriv c r) cs)"

text \<open>The pattern compiled from a string without metacharacters.\<close>

fun literal :: "string \<Rightarrow> rexp" where
  "literal [] = One"
| "literal (c # cs) = Seq (Atom c) (literal cs)"

section \<open>gcal.py: grouping and unit conversion\<close>

fun group_name :: "string \<Rightarrow> (rexp \<times> string) list \<Rightarrow> string" where
  "group_name s [] = s"
| "group_name s ((pattern, replacement) # groups) =
     (if re_match pattern s then replacement else group_name s groups)"

text \<open>
  The grouping operation as the specification words it: the first rule whose pattern
  matches the full name gives the replacement.
\<close>

fun group_fullmatch_spec :: "string \<Rightarrow> (rexp \<times> string) list \<Rightarrow> string" where
  "group_fullmatch_spec s [] = s"
| "group_fullmatch_spec s ((pattern, replacement) # groups) =
     (if re_fullmatch pattern s then replacement else group_fullmatch_spec s groups)"

section \<open>Python floats\<close>

text \<open>
  A Python float is an IEEE 754 double: a real number \<open>m * 2 ^ k\<close> with an integer \<open>m\<close> of
  less than 53 bits and \<open>k\<close> from -1074 to 971. Infinities and NaN are not values of the
  model.
\<close>

definition is_double :: "real \<Rightarrow> bool" where
  "is_double x = (\<exists>m k. \<bar>m\<bar> < 2 ^ 53 \<and> - 1074 \<le> k \<and> k \<le> 971 \<and> x = of_int m * 2 powi k)"

text \<open>
  An arithmetic operation on floats gives the double nearest to the exact result, a tie
  going to the double with the even significand. \<open>ulp_exponent x\<close> is the exponent of the
  spacing of the doubles around \<open>x\<close>, which stays at -1074 for the subnormal numbers, and
  \<open>double_round x\<close> is the multiple of that spacing nearest to \<open>x\<close>. This is the rounding of
  IEEE 754 for every result below the overflow threshold, as a quotient of a double by 60
  or by 3600 is.
\<close>

definition round_half_even :: "real \<Rightarrow> int" where
  "round_half_even q =
     (let f = \<lfloor>q\<rfloor> in
      if q - of_int f < 1 / 2 then f
      else if 1 / 2 < q - of_int f then f + 1
      else if even f then f else f + 1)"

definition ulp_exponent :: "real \<Rightarrow> int" where
  "ulp_exponent x = max (\<lfloor>log 2 \<bar>x\<bar>\<rfloor> - 52) (- 1074)"

definition double_round :: "real \<Rightarrow> real" where
  "double_round x = of_int (round_half_even (x / 2 powi ulp_exponent x)) * 2 powi ulp_exponent x"


section \<open>gcal.py: reading the calendar\<close>

text \<open>
  An \<open>arrow\<close> timestamp is modelled by what the code reads from it: the fields of its
  \<open>datetime\<close> and its position on the time line in seconds. An event of the \<open>ics\<close> library has
  a begin, an end and a name; its \<open>duration\<close> property is the time from begin to end, and
  \<open>total_seconds\<close> reads a time span in seconds.
\<close>

record arrow =
  dt_day :: int
  dt_month :: int
  dt_year :: int
  dt_hour :: int
  timestamp :: real

record event =
  ev_begin :: arrow
  ev_end :: arrow
  ev_name :: string

type_synonym timedelta = real

definition ev_duration :: "event \<Rightarrow> timedelta" where
  "ev_duration e = timestamp (ev_end e) - timestamp (ev_begin e)"

definition total_seconds :: "timedelta \<Rightarrow> real" where
  "total_seconds td = td"

text \<open>\<open>arrow.get\<close> of a value that is an arrow timestamp already gives the same instant.\<close>

definition arrow_get_arrow :: "arrow \<Rightarrow> arrow" where
  "arrow_get_arrow a = a"

record cal_row =
  day :: int
  month :: int
  year :: int
  hour :: int
  event_name :: string
  duration :: real

text \<open>
  The calendar table is a list of rows, each under its index label. \<open>cal_df.loc[i] = row\<close>
  overwrites the row labelled \<open>i\<close> when there is one and appends a new row otherwise.
\<close>

type_synonym cal_df = "(nat \<times> cal_row) list"

definition loc_set :: "cal_df \<Rightarrow> nat \<Rightarrow> cal_row \<Rightarrow> cal_df" where
  "loc_set df i r =
     (if i \<in> fst ` set df then map (\<lambda>(j, x). if j = i then (j, r) else (j, x)) df
      else df @ [(i, r)])"

definition event_row :: "event \<Rightarrow> cal_row" where
  "event_row e =
     (let start_date = arrow_get_arrow (ev_begin e);
          end_date = arrow_get_arrow (ev_end e)
      in \<lparr>day = dt_day start_date, month = dt_month start_date, year = dt_year start_date,
          hour = dt_hour start_date, event_name = ev_name e,
          duration = total_seconds (ev_duration e)\<rparr>)"

text \<open>The loop of \<open>_process_calendar\<close>, with its counter \<open>i\<close> and the table built so far.\<close>

fun process_events :: "event list \<Rightarrow> nat \<Rightarrow> cal_df \<Rightarrow> cal_df" where
  "process_events [] i df = df"
| "process_events (e # es) i df = process_events es (i + 1) (loc_set df i (event_row e))"

text \<open>
  \<open>_process_calendar\<close> on the events of the parsed calendar, in the order the loop visits
  them. Opening the file and parsing it belong to the \<open>ics\<close> library.
\<close>

definition process_calendar :: "event list \<Rightarrow> cal_df" where
  "process_calendar events = process_events events 0 []"

section \<open>gcal.py: date arguments\<close>

text \<open>
  \<open>arrow.get\<close> on a string is a parameter of the model: it gives a timestamp or raises.
  \<open>_valid_date\<close> turns a TypeError into an ArgumentTypeError and handles nothing else, so
  any other exception of \<open>arrow.get\<close> leaves \<open>_valid_date\<close> as it is.
\<close>

definition not_a_valid_date :: "string \<Rightarrow> string" where
  "not_a_valid_date s = ''Not a valid date: '' @ [CHR 0x27] @ s @ [CHR 0x27] @ ''.''"

definition valid_date :: "(string \<Rightarrow> exn + arrow) \<Rightarrow> string \<Rightarrow> exn + arrow" where
  "valid_date arrow_get s =
     (case arrow_get s of
        Inr d \<Rightarrow> Inr d
      | Inl (TypeError m) \<Rightarrow> Inl (ArgumentTypeError (not_a_valid_date s))
      | Inl e \<Rightarrow> Inl e)"

section \<open>gcal.py: charts\<close>

text \<open>
  A matplotlib figure is modelled by what the plotting functions put into it. Of the
  library calls, \<open>Axes.bar\<close> is given its failure: positions and heights that cannot be
  broadcast to one shape raise ValueError. A tick label is a string or a number.
\<close>

datatype label = LStr string | LNum int

record figure =
  bars :: "(real \<times> real) list"
  bar_color :: string
  ax_title :: string
  ax_xlabel :: string
  ax_ylabel :: string
  ax_xticks :: "(real list \<times> label list) option"
  size_inches :: "real \<times> real"

definition subplots :: figure where
  "subplots = \<lparr>bars = [], bar_color = [], ax_title = [], ax_xlabel = [], ax_ylabel = [],
                ax_xticks = None, size_inches = (32 / 5, 24 / 5)\<rparr>"

definition bar :: "figure \<Rightarrow> real list \<Rightarrow> real list \<Rightarrow> string \<Rightarrow> exn + figure" where
  "bar fig xs hs c =
     (if length xs = length hs then Inr (fig\<lparr>bars := zip xs hs, bar_color := c\<rparr>)
      else if length xs = 1 then Inr (fig\<lparr>bars := map (\<lambda>h. (hd xs, h)) hs, bar_color := c\<rparr>)
      else if length hs = 1 then Inr (fig\<lparr>bars := map (\<lambda>x. (x, hd hs)) xs, bar_color := c\<rparr>)
      else Inl (ValueError ''shape mismatch: objects cannot be broadcast to a single shape''))"

definition set_title :: "figure \<Rightarrow> string \<Rightarrow> figure" where
  "set_title fig t = fig\<lparr>ax_title := t\<rparr>"

definition set_xlabel :: "figure \<Rightarrow> string \<Rightarrow> figure" where
  "set_xlabel fig t = fig\<lparr>ax_xlabel := t\<rparr>"

definition set_ylabel :: "figure \<Rightarrow> string \<Rightarrow> figure" where
  "set_ylabel fig t = fig\<lparr>ax_ylabel := t\<rparr>"

definition xticks :: "figure \<Rightarrow> real list \<Rightarrow> label list \<Rightarrow> figure" where
  "xticks fig locs labels = fig\<lparr>ax_xticks := Some (locs, labels)\<rparr>"

definition set_size_inches :: "figure \<Rightarrow> real \<times> real \<Rightarrow> figure" where
  "set_size_inches fig sz = fig\<lparr>size_inches := sz\<rparr>"

text \<open>
  \<open>plot\<close> returns a figure or, from its \<open>except\<close> clause, a string. The body of its \<open>try\<close>
  is \<open>plot_try\<close>; the bare \<open>except\<close> catches every exception of the body.
\<close>

datatype plot_result = Figure figure | Message string

definition plot_try ::
  "label list \<Rightarrow> real list \<Rightarrow> real list \<Rightarrow> string \<Rightarrow> string \<Rightarrow> string \<Rightarrow> real \<times> real \<Rightarrow>
   string \<Rightarrow> string \<Rightarrow> exn + figure" where
  "plot_try x y z xlabel ylabel title fig_size fig_color flag =
     (case bar subplots (take 5 z) (take 5 y) fig_color of
        Inl e \<Rightarrow> Inl e
      | Inr fig1 \<Rightarrow>
          (let fig2 = set_title fig1 title;
               fig3 = set_xlabel fig2 xlabel;
               fig4 = set_ylabel fig3 ylabel;
               fig5 = (if flag = ''-T'' \<or> flag = ''-L'' then xticks fig4 (take 5 z) (take 5 x)
                       else fig4)
           in Inr (set_size_inches fig5 fig_size)))"

definition plot ::
  "label list \<Rightarrow> real list \<Rightarrow> real list \<Rightarrow> string \<Rightarrow> string \<Rightarrow> string \<Rightarrow> real \<times> real \<Rightarrow>
   string \<Rightarrow> string \<Rightarrow> exn + plot_result" where
  "plot x y z xlabel ylabel title fig_size fig_color flag =
     (case plot_try x y z xlabel ylabel title fig_size fig_color flag of
        Inr fig \<Rightarrow> Inr (Figure fig)
      | Inl e \<Rightarrow> Inr (Message ''Can't generate plot''))"

text \<open>
  The table \<open>plot_data\<close> draws from maps a column name to the numbers of that column;
  \<open>x[c]\<close> raises KeyError when the table has no column \<open>c\<close>. \<open>plot_data\<close> has no \<open>try\<close>:
  an exception of any of its steps leaves the function.
\<close>

type_synonym table = "string \<rightharpoonup> real list"

definition column :: "table \<Rightarrow> string \<Rightarrow> exn + real list" where
  "column x c = (case x c of None \<Rightarrow> Inl (KeyError c) | Some vs \<Rightarrow> Inr vs)"

definition plot_data ::
  "table \<Rightarrow> label list \<Rightarrow> string \<Rightarrow> string \<Rightarrow> string \<Rightarrow> string \<Rightarrow> string \<Rightarrow> real \<times> real \<Rightarrow>
   string \<Rightarrow> exn + figure" where
  "plot_data x y x_column y_column xlabel ylabel title fig_size fig_color =
     (case column x x_column of
        Inl e \<Rightarrow> Inl e
      | Inr xs \<Rightarrow>
     (case column x y_column of
        Inl e \<Rightarrow> Inl e
      | Inr hs \<Rightarrow>
     (case bar subplots xs hs fig_color of
        Inl e \<Rightarrow> Inl e
      | Inr fig1 \<Rightarrow>
          (let fig2 = set_title fig1 title;
               fig3 = set_xlabel fig2 xlabel;
               fig4 = set_ylabel fig3 ylabel
           in case column x x_column of
                Inl e \<Rightarrow> Inl e
              | Inr locs \<Rightarrow> Inr (set_size_inches (xticks fig4 locs y) fig_size)))))"

section \<open>gcal.py: get_plots\<close>

text \<open>
  \<open>get_plots\<close> adds the columns \<open>minutes\<close> and \<open>hours\<close> to the calendar table, filters it,
  adds the column \<open>count\<close> and aggregates. The index labels of the table play no part
  in any of these steps, so here the table is the list of its rows.
\<close>

record timed_row = cal_row +
  minutes :: real
  hours :: real

record counted_row = timed_row +
  count :: int



text \<open>
  The filters and sums of \<open>get_plots\<close> are followed on the table whose two derived columns
  hold the exact quotients, of which \<open>minutes_column\<close> and \<open>hours_column\<close> are the
  roundings. The bounds of the filter decide alike on a quotient and on its rounding when
  the duration is a double that is at most zero or at least a microsecond.
\<close>

definition with_minutes_hours :: "cal_row list \<Rightarrow> timed_row list" where
  "with_minutes_hours df =
     map (\<lambda>r. cal_row.extend r (timed_row.fields (duration r / 60) (duration r / 3600))) df"

text \<open>
  \<open>str.contains('birthday')\<close> searches each name for the pattern; \<open>birthday\<close> has no
  metacharacter, so the search is a case-sensitive substring test.
\<close>

definition drop_birthdays :: "timed_row list \<Rightarrow> timed_row list" where
  "drop_birthdays df = filter (\<lambda>r. \<not> str_contains (event_name r) ''birthday'') df"

definition within_a_day :: "timed_row list \<Rightarrow> timed_row list" where
  "within_a_day df = filter (\<lambda>r. hours r < 24 \<and> hours r > 0) df"

definition with_count :: "timed_row list \<Rightarrow> counted_row list" where
  "with_count df = map (\<lambda>r. timed_row.extend r (counted_row.fields 1)) df"

text \<open>The table \<open>cal_df\<close> after the two filters, and after the column \<open>count\<close> is added.\<close>

definition get_plots_filtered :: "cal_row list \<Rightarrow> timed_row list" where
  "get_plots_filtered df = within_a_day (drop_birthdays (with_minutes_hours df))"

definition get_plots_cal_df :: "cal_row list \<Rightarrow> counted_row list" where
  "get_plots_cal_df df = with_count (get_plots_filtered df)"

text \<open>
  \<open>groupby(key).sum()\<close>: one row for each distinct key, the keys in ascending order, each
  with the sum of a column over the rows of that key.
\<close>

definition group_keys :: "('r \<Rightarrow> 'k::linorder) \<Rightarrow> 'r list \<Rightarrow> 'k list" where
  "group_keys key df = sort (remdups (map key df))"

definition group_sum :: "('r \<Rightarrow> 'k) \<Rightarrow> ('r \<Rightarrow> 'v::comm_monoid_add) \<Rightarrow> 'r list \<Rightarrow> 'k \<Rightarrow> 'v" where
  "group_sum key val df k = sum_list (map val (filter (\<lambda>r. key r = k) df))"

text \<open>
  The aggregated tables. A row of \<open>cal_min\<close> is (event_name, count, minutes); a row of the
  others is the key and the summed column. The call of \<open>sort_values\<close> on \<open>cal_min\<close>
  returns a sorted copy that \<open>get_plots\<close> drops, so \<open>cal_min\<close> stays as grouped.
\<close>

definition cal_min :: "counted_row list \<Rightarrow> (string \<times> int \<times> real) list" where
  "cal_min df =
     map (\<lambda>k. (k, group_sum event_name count df k, group_sum event_name minutes df k))
       (group_keys event_name df)"

definition cal_month :: "counted_row list \<Rightarrow> (int \<times> int) list" where
  "cal_month df = map (\<lambda>k. (k, group_sum month count df k)) (group_keys month df)"

definition cal_month_time :: "counted_row list \<Rightarrow> (int \<times> real) list" where
  "cal_month_time df = map (\<lambda>k. (k, group_sum month hours df k)) (group_keys month df)"

definition cal_year_time :: "counted_row list \<Rightarrow> (int \<times> int) list" where
  "cal_year_time df = map (\<lambda>k. (k, group_sum year count df k)) (group_keys year df)"

definition get_plots_cal_min :: "cal_row list \<Rightarrow> (string \<times> int \<times> real) list" where
  "get_plots_cal_min df = cal_min (get_plots_cal_df df)"

definition months :: "string list" where
  "months = [''January'', ''Febuary'', ''March'', ''April'', ''May'', ''June'', ''July'',
             ''August'', ''September'', ''October'', ''November'', ''December'']"

definition table_of :: "string \<Rightarrow> real list \<Rightarrow> string \<Rightarrow> real list \<Rightarrow> table" where
  "table_of c1 v1 c2 v2 = [c1 \<mapsto> v1, c2 \<mapsto> v2]"

definition get_plots :: "cal_row list \<Rightarrow> exn + figure list" where
  "get_plots df =
     (let cal_df = get_plots_cal_df df;
          t_month = table_of ''month'' (map (\<lambda>(k, v). real_of_int k) (cal_month cal_df))
                      ''count'' (map (\<lambda>(k, v). real_of_int v) (cal_month cal_df));
          t_month_time = table_of ''month'' (map (\<lambda>(k, v). real_of_int k) (cal_month_time cal_df))
                      ''hours'' (map (\<lambda>(k, v). v) (cal_month_time cal_df));
          t_year_time = table_of ''year'' (map (\<lambda>(k, v). real_of_int k) (cal_year_time cal_df))
                      ''count'' (map (\<lambda>(k, v). real_of_int v) (cal_year_time cal_df))
      in
      case plot_data t_month_time (map LStr months) ''month'' ''hours'' ''Month''
             ''Hours Spent '' ''Total Time Spent Per Month'' (15, 5) ''#db3236'' of
        Inl e \<Rightarrow> Inl e
      | Inr fig1 \<Rightarrow>
     (case plot_data t_month (map LStr months) ''month'' ''count'' ''Month''
             ''Number of Events '' ''Total Events Per Month'' (15, 5) ''#db3236'' of
        Inl e \<Rightarrow> Inl e
      | Inr fig2 \<Rightarrow>
     (case plot_data t_year_time [LNum 2016, LNum 2017, LNum 2018] ''year'' ''count'' ''Year''
             ''Number of Events'' ''Number of Events'' (10, 5) ''#db3236'' of
        Inl e \<Rightarrow> Inl e
      | Inr fig3 \<Rightarrow> Inr [fig1, fig2, fig3])))"

section \<open>Notions of the specification\<close>

text \<open>
  A pattern matches at the start of a name when it accepts some prefix of the name, the
  empty prefix and the whole name included.
\<close>

definition matches_at_start :: "rexp \<Rightarrow> string \<Rightarrow> bool" where
  "matches_at_start r s = (\<exists>u. prefix u s \<and> accepts r u)"

text \<open>
  The records the specification excludes before grouping: the name matches the exclusion
  pattern, or the duration is at most zero or at least 24 hours, the duration being in
  seconds.
\<close>

definition excluded_spec :: "cal_row \<Rightarrow> bool" where
  "excluded_spec r =
     (str_contains (event_name r) ''birthday'' \<or> duration r \<le> 0 \<or> 24 * 3600 \<le> duration r)"

section \<open>Properties of the substring test\<close>

lemma startswith_prefix: "startswith s pat \<longleftrightarrow> prefix pat s"
  by (induction s pat rule: startswith.induct) auto

lemma str_contains_sublist: "str_contains s pat \<longleftrightarrow> sublist pat s"
  by (induction s) (auto simp: startswith_prefix sublist_Cons_right)

section \<open>Properties of linkedin.py\<close>

lemma mask_by_predicate: "map fst (filter snd (zip xs (map P xs))) = filter P xs"
  by (induction xs) auto

lemma rows_mask_series_eq:
  "rows (mask_rows df (series_eq (map (\<lambda>r. cell_at r c) (rows df)) s)) =
   filter (\<lambda>r. cell_at r c = Str s) (rows df)"
proof -
  have "series_eq (map (\<lambda>r. cell_at r c) (rows df)) s = map (\<lambda>r. cell_at r c = Str s) (rows df)"
    by (simp add: series_eq_def)
  then show ?thesis
    by (simp add: mask_rows_def mask_by_predicate)
qed

lemma columns_mask_rows: "columns (mask_rows df m) = columns df"
  by (simp add: mask_rows_def)

text \<open>
  C10, as stated, fails: it speaks of every input table, but on a table without the
  direction column \<open>get_sent_receive_invites\<close> raises KeyError and returns no tables.
\<close>

theorem get_sent_receive_invites_missing_column_counterexample:
  "get_sent_receive_invites
     \<lparr>columns = {''From''}, rows = [[''From'' \<mapsto> Str ''ann''], [''From'' \<mapsto> Str ''bob'']]\<rparr>
     ''Direction''
   = Inl (KeyError ''Direction'')"
  by (simp add: get_sent_receive_invites_def getitem_def)

text \<open>
  C10, amended. On a table that has the direction column, \<open>get_sent_receive_invites\<close>
  returns two sub-tables of the input: every row of the first holds exactly \<open>'OUTGOING'\<close> in
  that column, every row of the second exactly \<open>'INCOMING'\<close>, no row is in both, and a row
  holding any other value is in neither. On a table without the direction column it raises
  KeyError.
\<close>

theorem get_sent_receive_invites_partition:
  "(direction_column \<in> columns df \<longrightarrow>
     (\<exists>sent recv.
           get_sent_receive_invites df direction_column = Inr (sent, recv)
         \<and> columns sent = columns df \<and> columns recv = columns df
         \<and> subseq (rows sent) (rows df) \<and> subseq (rows recv) (rows df)
         \<and> (\<forall>r \<in> set (rows sent). cell_at r direction_column = Str ''OUTGOING'')
         \<and> (\<forall>r \<in> set (rows recv). cell_at r direction_column = Str ''INCOMING'')
         \<and> set (rows sent) \<inter> set (rows recv) = {}
         \<and> (\<forall>r \<in> set (rows df).
               cell_at r direction_column \<noteq> Str ''OUTGOING''
             \<and> cell_at r direction_column \<noteq> Str ''INCOMING''
             \<longrightarrow> r \<notin> set (rows sent) \<and> r \<notin> set (rows recv))))
   \<and> (direction_column \<notin> columns df \<longrightarrow>
        get_sent_receive_invites df direction_column = Inl (KeyError direction_column))"
proof (intro conjI impI)
  assume has: "direction_column \<in> columns df"
  let ?col = "map (\<lambda>r. cell_at r direction_column) (rows df)"
  let ?sent = "mask_rows df (series_eq ?col ''OUTGOING'')"
  let ?recv = "mask_rows df (series_eq ?col ''INCOMING'')"
  have res: "get_sent_receive_invites df direction_column = Inr (?sent, ?recv)"
    using has by (simp add: get_sent_receive_invites_def getitem_def)
  have rs: "rows ?sent = filter (\<lambda>r. cell_at r direction_column = Str ''OUTGOING'') (rows df)"
    by (rule rows_mask_series_eq)
  have rr: "rows ?recv = filter (\<lambda>r. cell_at r direction_column = Str ''INCOMING'') (rows df)"
    by (rule rows_mask_series_eq)
  have disj: "set (rows ?sent) \<inter> set (rows ?recv) = {}"
    unfolding rs rr by auto
  show "\<exists>sent recv.
           get_sent_receive_invites df direction_column = Inr (sent, recv)
         \<and> columns sent = columns df \<and> columns recv = columns df
         \<and> subseq (rows sent) (rows df) \<and> subseq (rows recv) (rows df)
         \<and> (\<forall>r \<in> set (rows sent). cell_at r direction_column = Str ''OUTGOING'')
         \<and> (\<forall>r \<in> set (rows recv). cell_at r direction_column = Str ''INCOMING'')
         \<and> set (rows sent) \<inter> set (rows recv) = {}
         \<and> (\<forall>r \<in> set (rows df).
               cell_at r direction_column \<noteq> Str ''OUTGOING''
             \<and> cell_at r direction_column \<noteq> Str ''INCOMING''
             \<longrightarrow> r \<notin> set (rows sent) \<and> r \<notin> set (rows recv))"
    apply (rule exI [of _ ?sent], rule exI [of _ ?recv])
    unfolding rs rr columns_mask_rows
    using res disj rs rr by auto
next
  assume "direction_column \<notin> columns df"
  then show "get_sent_receive_invites df direction_column = Inl (KeyError direction_column)"
    by (simp add: get_sent_receive_invites_def getitem_def)
qed

theorem get_sent_receive_invites_partition_witness:
  "''Direction'' \<in> {''From'', ''Direction''}
   \<and> get_sent_receive_invites
       \<lparr>columns = {''From'', ''Direction''},
        rows = [[''From'' \<mapsto> Str ''ann'', ''Direction'' \<mapsto> Str ''OUTGOING''],
                [''From'' \<mapsto> Str ''bob'', ''Direction'' \<mapsto> Str ''INCOMING''],
                [''From'' \<mapsto> Str ''cy'', ''Direction'' \<mapsto> Str ''outgoing''],
                [''From'' \<mapsto> Str ''di'', ''Direction'' \<mapsto> NaN]]\<rparr> ''Direction''
     = Inr (\<lparr>columns = {''From'', ''Direction''},
             rows = [[''From'' \<mapsto> Str ''ann'', ''Direction'' \<mapsto> Str ''OUTGOING'']]\<rparr>,
            \<lparr>columns = {''From'', ''Direction''},
             rows = [[''From'' \<mapsto> Str ''bob'', ''Direction'' \<mapsto> Str ''INCOMING'']]\<rparr>)
   \<and> ''Direction'' \<notin> {''From''}
   \<and> get_sent_receive_invites \<lparr>columns = {''From''}, rows = [[''From'' \<mapsto> Str ''ann'']]\<rparr>
        ''Direction'' = Inl (KeyError ''Direction'')"
  using get_sent_receive_invites_partition
    [of "''Direction''" "\<lparr>columns = {''From'', ''Direction''},
        rows = [[''From'' \<mapsto> Str ''ann'', ''Direction'' \<mapsto> Str ''OUTGOING''],
                [''From'' \<mapsto> Str ''bob'', ''Direction'' \<mapsto> Str ''INCOMING''],
                [''From'' \<mapsto> Str ''cy'', ''Direction'' \<mapsto> Str ''outgoing''],
                [''From'' \<mapsto> Str ''di'', ''Direction'' \<mapsto> NaN]]\<rparr>"]
    get_sent_receive_invites_partition
    [of "''Direction''" "\<lparr>columns = {''From''}, rows = [[''From'' \<mapsto> Str ''ann'']]\<rparr>"]
  by (simp add: get_sent_receive_invites_def getitem_def mask_rows_def series_eq_def cell_at_def)

lemma apply_relabel_strings:
  "\<forall>x \<in> set ser. \<forall>n. x \<noteq> Num n \<Longrightarrow> apply_series relabel ser = Inr (map relabelled ser)"
proof (induction ser)
  case Nil
  show ?case by simp
next
  case (Cons x ser)
  then have "relabel x = Inr (relabelled x)"
    by (cases x) (auto simp: relabel_def relabelled_def)
  with Cons show ?case by simp
qed

lemma apply_relabel_number:
  "Num n \<in> set ser \<Longrightarrow> \<exists>m. apply_series relabel ser = Inl (TypeError m)"
proof (induction ser)
  case Nil
  then show ?case by simp
next
  case (Cons x ser)
  show ?case
  proof (cases x)
    case (Num k)
    then show ?thesis by (simp add: relabel_def)
  next
    case (Str s)
    with Cons show ?thesis by (auto simp: relabel_def)
  next
    case NaN
    with Cons show ?thesis by (auto simp: relabel_def)
  qed
qed

lemma relabelled_recruiter:
  "relabelled x = Str ''Recruiter'' \<longleftrightarrow> (\<exists>s. x = Str s \<and> (\<exists>w \<in> set words. sublist w s))"
proof (cases x)
  case (Str s)
  have "s = ''Recruiter'' \<Longrightarrow> \<exists>w \<in> set words. sublist w s"
    by (auto simp: words_def)
  then show ?thesis
    using Str by (auto simp: relabelled_def list_ex_iff str_contains_sublist)
qed (simp_all add: relabelled_def)

lemma columns_setitem: "columns (setitem df c ser) = columns df"
  by (simp add: setitem_def)

lemma setitem_rows:
  "rows (setitem df c (map f (map (\<lambda>r. cell_at r c) (rows df)))) =
   map (\<lambda>r. r(c \<mapsto> f (cell_at r c))) (rows df)"
proof -
  have "map (\<lambda>(r, v). r(c \<mapsto> v)) (zip xs (map f (map (\<lambda>r. cell_at r c) xs)))
        = map (\<lambda>r. r(c \<mapsto> f (cell_at r c))) xs" for xs :: "row list"
    by (induction xs) auto
  then show ?thesis by (simp add: setitem_def)
qed

lemma import_recruiters_contacts_success:
  assumes rd: "read_safely ''./connections.csv'' = Inr df"
    and col: "''Position'' \<in> columns df"
    and strs: "\<forall>r \<in> set (rows df). \<forall>n. cell_at r ''Position'' \<noteq> Num n"
  shows "import_recruiters_contacts read_safely p =
     Inr \<lparr>columns = columns df,
          rows = map (\<lambda>r. r(''Position'' \<mapsto> Str ''Recruiter''))
                  (filter (\<lambda>r. \<exists>s. cell_at r ''Position'' = Str s \<and> (\<exists>w \<in> set words. sublist w s))
                     (rows df))\<rparr>"
proof -
  let ?P = "''Position''"
  let ?col = "map (\<lambda>r. cell_at r ?P) (rows df)"
  let ?df' = "setitem df ?P (map relabelled ?col)"
  have g1: "getitem df ?P = Inr ?col"
    using col by (simp add: getitem_def)
  have ap: "apply_series relabel ?col = Inr (map relabelled ?col)"
    using strs by (intro apply_relabel_strings) auto
  have rows': "rows ?df' = map (\<lambda>r. r(?P \<mapsto> relabelled (cell_at r ?P))) (rows df)"
    by (rule setitem_rows)
  have cols': "columns ?df' = columns df"
    by (simp add: setitem_def)
  have g2: "getitem ?df' ?P = Inr (map (\<lambda>r. cell_at r ?P) (rows ?df'))"
    using col cols' by (simp add: getitem_def)
  have res: "import_recruiters_contacts read_safely p =
        Inr (mask_rows ?df' (series_eq (map (\<lambda>r. cell_at r ?P) (rows ?df')) ''Recruiter''))"
    by (simp only: import_recruiters_contacts_def rd g1 ap g2 Let_def sum.case)
  have "rows (mask_rows ?df' (series_eq (map (\<lambda>r. cell_at r ?P) (rows ?df')) ''Recruiter''))
        = filter (\<lambda>r. cell_at r ?P = Str ''Recruiter'') (rows ?df')"
    by (rule rows_mask_series_eq)
  also have "\<dots> = map (\<lambda>r. r(?P \<mapsto> relabelled (cell_at r ?P)))
                     (filter (\<lambda>r. relabelled (cell_at r ?P) = Str ''Recruiter'') (rows df))"
    unfolding rows' by (simp add: filter_map comp_def cell_at_def)
  also have "\<dots> = map (\<lambda>r. r(?P \<mapsto> Str ''Recruiter''))
                     (filter (\<lambda>r. relabelled (cell_at r ?P) = Str ''Recruiter'') (rows df))"
    by (rule map_cong) auto
  finally have rws: "rows (mask_rows ?df' (series_eq (map (\<lambda>r. cell_at r ?P) (rows ?df')) ''Recruiter''))
     = map (\<lambda>r. r(?P \<mapsto> Str ''Recruiter''))
         (filter (\<lambda>r. \<exists>s. cell_at r ?P = Str s \<and> (\<exists>w \<in> set words. sublist w s)) (rows df))"
    by (simp only: relabelled_recruiter)
  have "columns (mask_rows ?df' (series_eq (map (\<lambda>r. cell_at r ?P) (rows ?df')) ''Recruiter''))
        = columns df"
    by (simp add: columns_mask_rows columns_setitem)
  with rws res show ?thesis
    by (simp add: frame.equality)
qed


lemma import_recruiters_contacts_failures:
  "read_safely ''./connections.csv'' = Inl e \<Longrightarrow> import_recruiters_contacts read_safely p = Inl e"
  "read_safely ''./connections.csv'' = Inr df \<Longrightarrow> ''Position'' \<notin> columns df \<Longrightarrow>
     import_recruiters_contacts read_safely p = Inl (KeyError ''Position'')"
  by (simp_all add: import_recruiters_contacts_def getitem_def)

lemma import_recruiters_contacts_number:
  assumes rd: "read_safely ''./connections.csv'' = Inr df"
    and col: "''Position'' \<in> columns df"
    and num: "r \<in> set (rows df)" "cell_at r ''Position'' = Num n"
  shows "\<exists>m. import_recruiters_contacts read_safely p = Inl (TypeError m)"
proof -
  have "Num n \<in> set (map (\<lambda>r. cell_at r ''Position'') (rows df))"
    using num by force
  then obtain m where "apply_series relabel (map (\<lambda>r. cell_at r ''Position'') (rows df)) = Inl (TypeError m)"
    using apply_relabel_number by blast
  then show ?thesis
    using rd col by (simp add: import_recruiters_contacts_def getitem_def)
qed

text \<open>
  C9. The result of \<open>import_recruiters_contacts\<close> does not depend on its path argument: it
  is determined by what \<open>read_safely\<close> yields for the fixed path \<open>'./connections.csv'\<close>, so
  two calls give the same result whatever their paths and whatever any other file holds.
  What is read there reaches the result: an exception of the reader is the exception of the
  call, a table without the Position column ends in KeyError, a number in that column in
  TypeError, and otherwise the result consists of the rows whose Position contains one of the
  four words, each with Position set to \<open>'Recruiter'\<close>.
\<close>

theorem import_recruiters_contacts_ignores_path:
  "(read_safely ''./connections.csv'' = read_safely' ''./connections.csv''
      \<longrightarrow> import_recruiters_contacts read_safely p1 = import_recruiters_contacts read_safely' p2)
   \<and> (read_safely ''./connections.csv'' = Inl e
      \<longrightarrow> import_recruiters_contacts read_safely p1 = Inl e)
   \<and> (read_safely ''./connections.csv'' = Inr df \<and> ''Position'' \<notin> columns df
      \<longrightarrow> import_recruiters_contacts read_safely p1 = Inl (KeyError ''Position''))
   \<and> (read_safely ''./connections.csv'' = Inr df \<and> ''Position'' \<in> columns df
        \<and> r \<in> set (rows df) \<and> cell_at r ''Position'' = Num n
      \<longrightarrow> (\<exists>m. import_recruiters_contacts read_safely p1 = Inl (TypeError m)))
   \<and> (read_safely ''./connections.csv'' = Inr df \<and> ''Position'' \<in> columns df
        \<and> (\<forall>r \<in> set (rows df). \<forall>n. cell_at r ''Position'' \<noteq> Num n)
      \<longrightarrow> import_recruiters_contacts read_safely p1 =
            Inr \<lparr>columns = columns df,
                 rows = map (\<lambda>r. r(''Position'' \<mapsto> Str ''Recruiter''))
                          (filter (\<lambda>r. \<exists>s. cell_at r ''Position'' = Str s
                                          \<and> (\<exists>w \<in> set words. sublist w s))
                             (rows df))\<rparr>)"
proof (intro conjI impI)
  assume "read_safely ''./connections.csv'' = read_safely' ''./connections.csv''"
  then show "import_recruiters_contacts read_safely p1 = import_recruiters_contacts read_safely' p2"
    by (simp add: import_recruiters_contacts_def)
next
  assume "read_safely ''./connections.csv'' = Inl e"
  then show "import_recruiters_contacts read_safely p1 = Inl e"
    by (rule import_recruiters_contacts_failures)
next
  assume "read_safely ''./connections.csv'' = Inr df \<and> ''Position'' \<notin> columns df"
  then show "import_recruiters_contacts read_safely p1 = Inl (KeyError ''Position'')"
    by (simp add: import_recruiters_contacts_failures)
next
  assume "read_safely ''./connections.csv'' = Inr df \<and> ''Position'' \<in> columns df
        \<and> r \<in> set (rows df) \<and> cell_at r ''Position'' = Num n"
  then show "\<exists>m. import_recruiters_contacts read_safely p1 = Inl (TypeError m)"
    using import_recruiters_contacts_number by blast
next
  assume "read_safely ''./connections.csv'' = Inr df \<and> ''Position'' \<in> columns df
        \<and> (\<forall>r \<in> set (rows df). \<forall>n. cell_at r ''Position'' \<noteq> Num n)"
  then show "import_recruiters_contacts read_safely p1 =
            Inr \<lparr>columns = columns df,
                 rows = map (\<lambda>r. r(''Position'' \<mapsto> Str ''Recruiter''))
                          (filter (\<lambda>r. \<exists>s. cell_at r ''Position'' = Str s
                                          \<and> (\<exists>w \<in> set words. sublist w s))
                             (rows df))\<rparr>"
    using import_recruiters_contacts_success by blast
qed

theorem import_recruiters_contacts_ignores_path_witness:
  "(\<lambda>p. if p = ''./connections.csv''
         then Inr \<lparr>columns = {''Name'', ''Position''},
                   rows = [[''Name'' \<mapsto> Str ''ann'', ''Position'' \<mapsto> Str ''Senior Talent Partner''],
                           [''Name'' \<mapsto> Str ''bob'', ''Position'' \<mapsto> Str ''Engineer''],
                           [''Name'' \<mapsto> Str ''cy'', ''Position'' \<mapsto> NaN]]\<rparr>
         else Inl (ValueError ''unreadable'')) ''./connections.csv''
   = (\<lambda>p. Inr \<lparr>columns = {''Name'', ''Position''},
                   rows = [[''Name'' \<mapsto> Str ''ann'', ''Position'' \<mapsto> Str ''Senior Talent Partner''],
                           [''Name'' \<mapsto> Str ''bob'', ''Position'' \<mapsto> Str ''Engineer''],
                           [''Name'' \<mapsto> Str ''cy'', ''Position'' \<mapsto> NaN]]\<rparr>) ''./connections.csv''
   \<and> import_recruiters_contacts
        (\<lambda>p. if p = ''./connections.csv''
         then Inr \<lparr>columns = {''Name'', ''Position''},
                   rows = [[''Name'' \<mapsto> Str ''ann'', ''Position'' \<mapsto> Str ''Senior Talent Partner''],
                           [''Name'' \<mapsto> Str ''bob'', ''Position'' \<mapsto> Str ''Engineer''],
                           [''Name'' \<mapsto> Str ''cy'', ''Position'' \<mapsto> NaN]]\<rparr>
         else Inl (ValueError ''unreadable'')) ''a.csv''
     = import_recruiters_contacts
        (\<lambda>p. Inr \<lparr>columns = {''Name'', ''Position''},
                   rows = [[''Name'' \<mapsto> Str ''ann'', ''Position'' \<mapsto> Str ''Senior Talent Partner''],
                           [''Name'' \<mapsto> Str ''bob'', ''Position'' \<mapsto> Str ''Engineer''],
                           [''Name'' \<mapsto> Str ''cy'', ''Position'' \<mapsto> NaN]]\<rparr>) ''b.csv''
   \<and> import_recruiters_contacts
        (\<lambda>p. Inr \<lparr>columns = {''Name'', ''Position''},
                   rows = [[''Name'' \<mapsto> Str ''ann'', ''Position'' \<mapsto> Str ''Senior Talent Partner''],
                           [''Name'' \<mapsto> Str ''bob'', ''Position'' \<mapsto> Str ''Engineer''],
                           [''Name'' \<mapsto> Str ''cy'', ''Position'' \<mapsto> NaN]]\<rparr>) ''b.csv''
     = Inr \<lparr>columns = {''Name'', ''Position''},
            rows = [[''Name'' \<mapsto> Str ''ann'', ''Position'' \<mapsto> Str ''Recruiter'']]\<rparr>
   \<and> import_recruiters_contacts (\<lambda>p. Inl (NameError ''read_safely'')) ''a.csv''
     = Inl (NameError ''read_safely'')"
  using import_recruiters_contacts_ignores_path
    [of "\<lambda>p. if p = ''./connections.csv''
         then Inr \<lparr>columns = {''Name'', ''Position''},
                   rows = [[''Name'' \<mapsto> Str ''ann'', ''Position'' \<mapsto> Str ''Senior Talent Partner''],
                           [''Name'' \<mapsto> Str ''bob'', ''Position'' \<mapsto> Str ''Engineer''],
                           [''Name'' \<mapsto> Str ''cy'', ''Position'' \<mapsto> NaN]]\<rparr>
         else Inl (ValueError ''unreadable'')"
        "\<lambda>p. Inr \<lparr>columns = {''Name'', ''Position''},
                   rows = [[''Name'' \<mapsto> Str ''ann'', ''Position'' \<mapsto> Str ''Senior Talent Partner''],
                           [''Name'' \<mapsto> Str ''bob'', ''Position'' \<mapsto> Str ''Engineer''],
                           [''Name'' \<mapsto> Str ''cy'', ''Position'' \<mapsto> NaN]]\<rparr>" "''a.csv''" "''b.csv''"]
    import_recruiters_contacts_ignores_path
    [of "\<lambda>p. Inl (NameError ''read_safely'')" "\<lambda>p. Inl (NameError ''read_safely'')"
        "''a.csv''" "''a.csv''" "NameError ''read_safely''"]
  by (simp add: import_recruiters_contacts_def getitem_def relabel_def words_def setitem_def
        mask_rows_def series_eq_def cell_at_def)

section \<open>Properties of the matcher\<close>

inductive_cases acc_ZeroE: "accepts Zero w"
inductive_cases acc_OneE: "accepts One w"
inductive_cases acc_AtomE: "accepts (Atom c) w"
inductive_cases acc_DotE: "accepts Dot w"
inductive_cases acc_AltE: "accepts (Alt r s) w"
inductive_cases acc_SeqE: "accepts (Seq r s) w"

lemma acc_Seq_Nil: "accepts r [] \<Longrightarrow> accepts s v \<Longrightarrow> accepts (Seq r s) v"
  using acc_Seq [of r "[]" s v] by simp

lemma acc_Seq_Cons: "accepts r (c # u) \<Longrightarrow> accepts s v \<Longrightarrow> accepts (Seq r s) (c # u @ v)"
  using acc_Seq [of r "c # u" s v] by simp

lemma acc_Star_Cons:
  "accepts r (c # u) \<Longrightarrow> accepts (Star r) v \<Longrightarrow> accepts (Star r) (c # u @ v)"
  using acc_StarStep [of r "c # u" v] by simp

lemma nullable_accepts: "nullable r \<longleftrightarrow> accepts r []"
proof (induction r)
  case (Seq r s)
  have "accepts (Seq r s) [] \<longleftrightarrow> accepts r [] \<and> accepts s []"
  proof
    assume "accepts (Seq r s) []"
    then show "accepts r [] \<and> accepts s []"
      by (auto elim!: acc_SeqE)
  next
    assume "accepts r [] \<and> accepts s []"
    then show "accepts (Seq r s) []" by (simp add: acc_Seq_Nil)
  qed
  with Seq show ?case by simp
qed (auto intro: accepts.intros elim: acc_ZeroE acc_OneE acc_AtomE acc_DotE acc_AltE)

lemma star_cons_split:
  assumes "accepts q w" and "q = Star r" and "w = c # v"
  shows "\<exists>u1 u2. v = u1 @ u2 \<and> accepts r (c # u1) \<and> accepts (Star r) u2"
  using assms
proof (induction q w arbitrary: v rule: accepts.induct)
  case (acc_StarStep r' u v')
  show ?case
  proof (cases u)
    case Nil
    with acc_StarStep show ?thesis by simp
  next
    case (Cons a u')
    with acc_StarStep.prems acc_StarStep.hyps have "a = c" "v = u' @ v'" "r' = r" by auto
    with acc_StarStep.hyps Cons show ?thesis by blast
  qed
qed auto

lemma deriv_accepts: "accepts (deriv c r) w \<longleftrightarrow> accepts r (c # w)"
proof (induction r arbitrary: w)
  case Zero
  show ?case by (auto elim: acc_ZeroE)
next
  case One
  show ?case by (auto elim: acc_ZeroE acc_OneE)
next
  case (Atom a)
  show ?case by (auto elim: acc_ZeroE acc_OneE acc_AtomE intro: accepts.intros)
next
  case Dot
  show ?case by (auto elim: acc_ZeroE acc_OneE acc_DotE intro: accepts.intros)
next
  case (Alt r s)
  then show ?case by (auto elim!: acc_AltE intro: accepts.intros)
next
  case (Seq r s)
  have split: "accepts (Seq r s) (c # w) \<longleftrightarrow>
        (\<exists>u v. w = u @ v \<and> accepts r (c # u) \<and> accepts s v) \<or> (accepts r [] \<and> accepts s (c # w))"
  proof
    assume "accepts (Seq r s) (c # w)"
    then obtain u v where uv: "c # w = u @ v" "accepts r u" "accepts s v"
      by (auto elim!: acc_SeqE)
    show "(\<exists>u v. w = u @ v \<and> accepts r (c # u) \<and> accepts s v) \<or> (accepts r [] \<and> accepts s (c # w))"
    proof (cases u)
      case Nil
      with uv show ?thesis by simp
    next
      case (Cons a u')
      with uv have "a = c" "w = u' @ v" by auto
      with uv Cons show ?thesis by blast
    qed
  next
    assume "(\<exists>u v. w = u @ v \<and> accepts r (c # u) \<and> accepts s v) \<or> (accepts r [] \<and> accepts s (c # w))"
    then show "accepts (Seq r s) (c # w)"
    proof
      assume "\<exists>u v. w = u @ v \<and> accepts r (c # u) \<and> accepts s v"
      then obtain u v where "w = u @ v" "accepts r (c # u)" "accepts s v" by blast
      then show ?thesis by (simp add: acc_Seq_Cons)
    next
      assume "accepts r [] \<and> accepts s (c # w)"
      then show ?thesis by (simp add: acc_Seq_Nil)
    qed
  qed
  have left: "accepts (Seq (deriv c r) s) w \<longleftrightarrow> (\<exists>u v. w = u @ v \<and> accepts r (c # u) \<and> accepts s v)"
    using Seq.IH(1) by (auto elim!: acc_SeqE intro: acc_Seq)
  show ?case
    using split left Seq.IH(2) [of w]
    by (auto simp: nullable_accepts elim!: acc_AltE intro: acc_AltL acc_AltR)
next
  case (Star r)
  have "accepts (Seq (deriv c r) (Star r)) w \<longleftrightarrow>
        (\<exists>u v. w = u @ v \<and> accepts r (c # u) \<and> accepts (Star r) v)"
    using Star.IH by (auto elim!: acc_SeqE intro: acc_Seq)
  also have "\<dots> \<longleftrightarrow> accepts (Star r) (c # w)"
  proof
    assume "\<exists>u v. w = u @ v \<and> accepts r (c # u) \<and> accepts (Star r) v"
    then obtain u v where "w = u @ v" "accepts r (c # u)" "accepts (Star r) v" by blast
    then show "accepts (Star r) (c # w)" by (simp add: acc_Star_Cons)
  next
    assume "accepts (Star r) (c # w)"
    then show "\<exists>u v. w = u @ v \<and> accepts r (c # u) \<and> accepts (Star r) v"
      using star_cons_split by blast
  qed
  finally show ?case by simp
qed

lemma re_fullmatch_accepts: "re_fullmatch r w \<longleftrightarrow> accepts r w"
  by (induction w arbitrary: r) (simp_all add: nullable_accepts deriv_accepts)

lemma re_match_prefix: "re_match r w \<longleftrightarrow> (\<exists>u v. w = u @ v \<and> accepts r u)"
proof (induction w arbitrary: r)
  case Nil
  show ?case by (simp add: nullable_accepts)
next
  case (Cons c w)
  have "(\<exists>u v. c # w = u @ v \<and> accepts r u) \<longleftrightarrow>
        accepts r [] \<or> (\<exists>u v. w = u @ v \<and> accepts r (c # u))"
    by (auto simp: Cons_eq_append_conv)
  with Cons show ?case
    by (simp add: nullable_accepts deriv_accepts)
qed

lemma re_match_at_start: "re_match r s \<longleftrightarrow> matches_at_start r s"
  by (auto simp: re_match_prefix matches_at_start_def prefix_def)

section \<open>Properties of _group\<close>

lemma group_name_no_match:
  "\<forall>x \<in> set groups. \<not> re_match (fst x) s \<Longrightarrow> group_name s groups = s"
  by (induction groups) auto

lemma group_name_first_match:
  "\<forall>x \<in> set pre. \<not> re_match (fst x) s \<Longrightarrow> re_match p s \<Longrightarrow>
   group_name s (pre @ (p, rep) # post) = rep"
  by (induction pre) auto

text \<open>
  C2, as stated, fails. The rule \<open>('Standup', 'Meetings')\<close> does not match the full name
  \<open>'Standup meeting'\<close>, so the operation of the specification keeps the name, but
  \<open>_group\<close> returns \<open>'Meetings'\<close>: \<open>pattern.match\<close> is anchored at the start of the name
  only.
\<close>

theorem group_name_fullmatch_counterexample:
  "group_name ''Standup meeting'' [(literal ''Standup'', ''Meetings'')] = ''Meetings''
   \<and> \<not> re_fullmatch (literal ''Standup'') ''Standup meeting''
   \<and> group_fullmatch_spec ''Standup meeting'' [(literal ''Standup'', ''Meetings'')]
       = ''Standup meeting''"
  by simp

text \<open>
  C2, amended. \<open>_group\<close> returns the name unchanged when no rule's pattern matches at the
  start of the name, and otherwise the replacement of the first rule whose pattern matches
  at the start of the name; the match need not reach the end of the name.
\<close>

theorem group_name_first_match_at_start:
  "((\<forall>x \<in> set groups. \<not> matches_at_start (fst x) s) \<longrightarrow> group_name s groups = s)
   \<and> ((\<forall>x \<in> set pre. \<not> matches_at_start (fst x) s) \<and> matches_at_start p s
        \<longrightarrow> group_name s (pre @ (p, rep) # post) = rep)"
  by (simp add: group_name_no_match group_name_first_match re_match_at_start [symmetric])

theorem group_name_first_match_at_start_witness:
  "\<not> matches_at_start (literal ''Lunch'') ''Standup meeting''
   \<and> \<not> matches_at_start (literal ''tandup'') ''Standup meeting''
   \<and> matches_at_start (literal ''Standup'') ''Standup meeting''
   \<and> group_name ''Standup meeting''
        ([(literal ''Lunch'', ''Food'')] @ (literal ''Standup'', ''Meetings'')
           # [(Seq (literal ''Stand'') (Star Dot), ''Other'')]) = ''Meetings''
   \<and> group_name ''Standup meeting'' [(literal ''Lunch'', ''Food''), (literal ''tandup'', ''Meetings'')]
       = ''Standup meeting''"
  using group_name_first_match_at_start
    [of "[(literal ''Lunch'', ''Food''), (literal ''tandup'', ''Meetings'')]" "''Standup meeting''"
        "[(literal ''Lunch'', ''Food'')]" "literal ''Standup''" "''Meetings''"
        "[(Seq (literal ''Stand'') (Star Dot), ''Other'')]"]
  by (simp add: re_match_at_start [symmetric])

section \<open>Properties of _process_calendar\<close>

lemma process_events_appends:
  assumes "\<forall>j \<in> fst ` set df. j < i"
  shows "process_events es i df = df @ zip [i ..< i + length es] (map event_row es)"
  using assms
proof (induction es arbitrary: i df)
  case Nil
  show ?case by simp
next
  case (Cons e es)
  have fresh: "i \<notin> fst ` set df"
    using Cons.prems by auto
  then have step: "loc_set df i (event_row e) = df @ [(i, event_row e)]"
    by (simp add: loc_set_def)
  have "\<forall>j \<in> fst ` set (df @ [(i, event_row e)]). j < i + 1"
    using Cons.prems by auto
  then have "process_events es (i + 1) (df @ [(i, event_row e)])
        = (df @ [(i, event_row e)]) @ zip [i + 1 ..< i + 1 + length es] (map event_row es)"
    by (rule Cons.IH)
  moreover have "[i ..< i + length (e # es)] = i # [i + 1 ..< i + 1 + length es]"
    by (simp add: upt_rec)
  ultimately show ?case
    using step by simp
qed

lemma process_calendar_rows:
  "process_calendar events = zip [0 ..< length events] (map event_row events)"
  using process_events_appends [of "[]" 0 events] by (simp add: process_calendar_def)

text \<open>
  C8. The table has one row for each event, under the event's position as its label. For an
  event whose end precedes its begin, the row keeps the event's name and holds as duration
  the time from begin to end as it is: a negative number of seconds.
\<close>

theorem process_calendar_keeps_negative_duration:
  assumes "i < length events"
    and "timestamp (ev_end (events ! i)) < timestamp (ev_begin (events ! i))"
  shows "length (process_calendar events) = length events
       \<and> fst (process_calendar events ! i) = i
       \<and> event_name (snd (process_calendar events ! i)) = ev_name (events ! i)
       \<and> duration (snd (process_calendar events ! i))
           = timestamp (ev_end (events ! i)) - timestamp (ev_begin (events ! i))
       \<and> duration (snd (process_calendar events ! i)) < 0"
  using assms
  by (simp add: process_calendar_rows event_row_def ev_duration_def total_seconds_def
        arrow_get_arrow_def Let_def)

theorem process_calendar_keeps_negative_duration_witness:
  "(1::nat) < length
      [\<lparr>ev_begin = \<lparr>dt_day = 3, dt_month = 10, dt_year = 2017, dt_hour = 9, timestamp = 1507021200\<rparr>,
        ev_end = \<lparr>dt_day = 3, dt_month = 10, dt_year = 2017, dt_hour = 10, timestamp = 1507024800\<rparr>,
        ev_name = ''Standup''\<rparr>,
       \<lparr>ev_begin = \<lparr>dt_day = 4, dt_month = 10, dt_year = 2017, dt_hour = 10, timestamp = 1507111200\<rparr>,
        ev_end = \<lparr>dt_day = 4, dt_month = 10, dt_year = 2017, dt_hour = 9, timestamp = 1507107600\<rparr>,
        ev_name = ''Reversed''\<rparr>]
   \<and> process_calendar
      [\<lparr>ev_begin = \<lparr>dt_day = 3, dt_month = 10, dt_year = 2017, dt_hour = 9, timestamp = 1507021200\<rparr>,
        ev_end = \<lparr>dt_day = 3, dt_month = 10, dt_year = 2017, dt_hour = 10, timestamp = 1507024800\<rparr>,
        ev_name = ''Standup''\<rparr>,
       \<lparr>ev_begin = \<lparr>dt_day = 4, dt_month = 10, dt_year = 2017, dt_hour = 10, timestamp = 1507111200\<rparr>,
        ev_end = \<lparr>dt_day = 4, dt_month = 10, dt_year = 2017, dt_hour = 9, timestamp = 1507107600\<rparr>,
        ev_name = ''Reversed''\<rparr>]
     = [(0, \<lparr>day = 3, month = 10, year = 2017, hour = 9, event_name = ''Standup'', duration = 3600\<rparr>),
        (1, \<lparr>day = 4, month = 10, year = 2017, hour = 10, event_name = ''Reversed'',
             duration = - 3600\<rparr>)]"
  using process_calendar_keeps_negative_duration [of 1
      "[\<lparr>ev_begin = \<lparr>dt_day = 3, dt_month = 10, dt_year = 2017, dt_hour = 9, timestamp = 1507021200\<rparr>,
        ev_end = \<lparr>dt_day = 3, dt_month = 10, dt_year = 2017, dt_hour = 10, timestamp = 1507024800\<rparr>,
        ev_name = ''Standup''\<rparr>,
       \<lparr>ev_begin = \<lparr>dt_day = 4, dt_month = 10, dt_year = 2017, dt_hour = 10, timestamp = 1507111200\<rparr>,
        ev_end = \<lparr>dt_day = 4, dt_month = 10, dt_year = 2017, dt_hour = 9, timestamp = 1507107600\<rparr>,
        ev_name = ''Reversed''\<rparr>]"]
  by (simp add: process_calendar_def loc_set_def event_row_def ev_duration_def total_seconds_def
        arrow_get_arrow_def Let_def)

section \<open>Properties of _valid_date\<close>

lemma valid_date_returns:
  "arrow_get s = Inr d \<Longrightarrow> valid_date arrow_get s = Inr d"
  by (simp add: valid_date_def)

lemma valid_date_type_error:
  "arrow_get s = Inl (TypeError m) \<Longrightarrow>
   valid_date arrow_get s = Inl (ArgumentTypeError (not_a_valid_date s))"
  by (simp add: valid_date_def)

text \<open>
  C3. An exception of \<open>arrow.get\<close> that is not a TypeError is not handled by the \<open>except\<close>
  clause of \<open>_valid_date\<close>. The parser error that \<open>arrow.get\<close> raises on a string it
  cannot read as a date is such an exception: the call ends in that parser error and not
  in the "Not a valid date" argument error.
\<close>

theorem valid_date_lets_other_errors_through:
  assumes "arrow_get s = Inl e" and "\<forall>m. e \<noteq> TypeError m"
  shows "valid_date arrow_get s = Inl e"
  using assms by (cases e) (simp_all add: valid_date_def)

theorem valid_date_lets_other_errors_through_witness:
  "(\<lambda>s. Inl (ParserError ''Could not match input to any of the supported formats''))
       ''not-a-date''
     = (Inl (ParserError ''Could not match input to any of the supported formats'') :: exn + arrow)
   \<and> (\<forall>m. ParserError ''Could not match input to any of the supported formats'' \<noteq> TypeError m)
   \<and> valid_date (\<lambda>s. Inl (ParserError ''Could not match input to any of the supported formats''))
        ''not-a-date''
     = Inl (ParserError ''Could not match input to any of the supported formats'')"
  using valid_date_lets_other_errors_through
    [of "\<lambda>s. Inl (ParserError ''Could not match input to any of the supported formats'')"
        "''not-a-date''" "ParserError ''Could not match input to any of the supported formats''"]
  by simp

section \<open>Properties of plot and plot_data\<close>

lemma plot_catches:
  "plot x y z xlabel ylabel title fig_size fig_color flag =
     (case plot_try x y z xlabel ylabel title fig_size fig_color flag of
        Inl e \<Rightarrow> Inr (Message ''Can't generate plot'')
      | Inr fig \<Rightarrow> Inr (Figure fig))"
  by (simp add: plot_def split: sum.splits)

lemma plot_never_raises: "\<exists>r. plot x y z xlabel ylabel title fig_size fig_color flag = Inr r"
  by (simp add: plot_def split: sum.splits)

lemma plot_mismatched_lengths:
  "plot [] [1, 2] [1, 2, 3] ''x'' ''y'' ''t'' (10, 5) ''#db3236'' ''-T''
     = Inr (Message ''Can't generate plot'')"
  by (simp add: plot_def plot_try_def bar_def)

text \<open>
  C1. \<open>plot\<close> answers every exception of its body with the failure string, but \<open>plot_data\<close>
  does not: on a table without the column it is asked to draw, as the empty table, it ends
  in the KeyError of the column lookup.
\<close>

theorem plot_data_raises_on_missing_column:
  "plot_data Map.empty (map LStr months) ''month'' ''hours'' ''Month'' ''Hours Spent ''
     ''Total Time Spent Per Month'' (15, 5) ''#db3236'' = Inl (KeyError ''month'')"
  by (simp add: plot_data_def column_def)

section \<open>Properties of float rounding\<close>

lemma round_half_even_error: "\<bar>of_int (round_half_even q) - q\<bar> \<le> 1 / 2"
  unfolding round_half_even_def Let_def by (auto; linarith)

lemma round_half_even_of_int: "round_half_even (of_int n) = n"
  by (simp add: round_half_even_def)

lemma two_powi_pos: "0 < (2::real) powi k"
  by (simp add: power_int_def)

lemma double_round_error: "\<bar>double_round x - x\<bar> \<le> 2 powi ulp_exponent x / 2"
proof -
  let ?u = "(2::real) powi ulp_exponent x"
  have u: "0 < ?u" by (rule two_powi_pos)
  have "double_round x - x = (of_int (round_half_even (x / ?u)) - x / ?u) * ?u"
    using u by (simp add: double_round_def field_simps)
  then have "\<bar>double_round x - x\<bar> = \<bar>of_int (round_half_even (x / ?u)) - x / ?u\<bar> * ?u"
    using u by (simp add: abs_mult)
  also have "\<dots> \<le> 1 / 2 * ?u"
    using u round_half_even_error [of "x / ?u"] by (intro mult_right_mono) auto
  finally show ?thesis by simp
qed

lemma floor_log2_powi:
  assumes "0 < x" "2 powi e \<le> x" "x < 2 powi (e + 1)"
  shows "\<lfloor>log 2 x\<rfloor> = e"
proof -
  have "(2::real) powr real_of_int e = 2 powi e" "(2::real) powr real_of_int (e + 1) = 2 powi (e + 1)"
    by (simp_all only: powr_real_of_int' [of 2, simplified])
  then show ?thesis
    using assms floor_log_eq_powr_iff [of x 2 e] by simp
qed

lemma floor_log2_bounds:
  assumes "0 < x"
  shows "2 powi \<lfloor>log 2 x\<rfloor> \<le> x" "x < 2 powi (\<lfloor>log 2 x\<rfloor> + 1)"
proof -
  let ?e = "\<lfloor>log 2 x\<rfloor>"
  have eq: "(2::real) powr real_of_int ?e = 2 powi ?e"
           "(2::real) powr real_of_int (?e + 1) = 2 powi (?e + 1)"
    by (simp_all only: powr_real_of_int' [of 2, simplified])
  have "2 powr real_of_int ?e \<le> x \<and> x < 2 powr (real_of_int ?e + 1)"
    using assms floor_log_eq_powr_iff [of x 2 ?e] by simp
  then show "2 powi ?e \<le> x" "x < 2 powi (?e + 1)"
    using eq by simp_all
qed


lemma two_powi_less_cancel: "(2::real) powi a < 2 powi b \<Longrightarrow> a < b"
proof (rule ccontr)
  assume lt: "(2::real) powi a < 2 powi b" and "\<not> a < b"
  then have "b \<le> a" by simp
  then have "(2::real) powi b \<le> 2 powi a"
    by (intro power_int_increasing) auto
  with lt show False by simp
qed


lemma two_powi_nonneg: "0 \<le> d \<Longrightarrow> (2::real) powi d = of_int (2 ^ nat d)"
  by (simp add: power_int_def)


lemma ulp_exponent_le:
  assumes "x \<noteq> 0" and "\<bar>x\<bar> < 2 powi (53 + k)" and "- 1074 \<le> k"
  shows "ulp_exponent x \<le> k"
proof -
  have pos: "0 < \<bar>x\<bar>" using assms(1) by simp
  have "2 powi \<lfloor>log 2 \<bar>x\<bar>\<rfloor> \<le> \<bar>x\<bar>"
    using floor_log2_bounds(1) [OF pos] .
  then have "(2::real) powi \<lfloor>log 2 \<bar>x\<bar>\<rfloor> < 2 powi (53 + k)"
    using assms(2) by linarith
  then have "\<lfloor>log 2 \<bar>x\<bar>\<rfloor> < 53 + k"
    by (rule two_powi_less_cancel)
  then show ?thesis
    using assms(3) by (simp add: ulp_exponent_def)
qed







lemma ulp_exponent_eval:
  assumes "2 powi e \<le> \<bar>x\<bar>" "\<bar>x\<bar> < 2 powi (e + 1)"
  shows "ulp_exponent x = max (e - 52) (- 1074)"
proof -
  have "0 < \<bar>x\<bar>" using assms(1) two_powi_pos [of e] by linarith
  then have "\<lfloor>log 2 \<bar>x\<bar>\<rfloor> = e"
    using assms by (rule floor_log2_powi)
  then show ?thesis by (simp add: ulp_exponent_def)
qed

lemma round_half_even_ge: "of_int n \<le> q \<Longrightarrow> n \<le> round_half_even q"
proof -
  assume "of_int n \<le> q"
  then have "n \<le> \<lfloor>q\<rfloor>" by (simp add: le_floor_iff)
  moreover have "\<lfloor>q\<rfloor> \<le> round_half_even q"
    by (simp add: round_half_even_def Let_def)
  ultimately show ?thesis by simp
qed

lemma round_half_even_le: "q \<le> of_int n \<Longrightarrow> round_half_even q \<le> n"
proof (cases "q = of_int n")
  case True
  then show ?thesis by (simp add: round_half_even_of_int)
next
  case False
  assume "q \<le> of_int n"
  with False have "q < of_int n" by simp
  then have "\<lfloor>q\<rfloor> < n" by (simp add: floor_less_iff)
  moreover have "round_half_even q \<le> \<lfloor>q\<rfloor> + 1"
    by (simp add: round_half_even_def Let_def)
  ultimately show ?thesis by simp
qed

lemma double_round_nonpos: "q \<le> 0 \<Longrightarrow> double_round q \<le> 0"
proof -
  assume "q \<le> 0"
  then have "q / 2 powi ulp_exponent q \<le> of_int 0"
    using two_powi_pos [of "ulp_exponent q"] by (simp add: divide_le_0_iff)
  then have "round_half_even (q / 2 powi ulp_exponent q) \<le> 0"
    by (rule round_half_even_le)
  then show ?thesis
    using two_powi_pos [of "ulp_exponent q"]
    by (simp add: double_round_def mult_le_0_iff)
qed

lemma double_round_ge_multiple:
  assumes "of_int n * 2 powi ulp_exponent q \<le> q"
  shows "of_int n * 2 powi ulp_exponent q \<le> double_round q"
proof -
  let ?u = "(2::real) powi ulp_exponent q"
  have u: "0 < ?u" by (rule two_powi_pos)
  have "of_int n \<le> q / ?u"
    using assms u by (simp add: pos_le_divide_eq)
  then have "n \<le> round_half_even (q / ?u)"
    by (rule round_half_even_ge)
  then have "real_of_int n \<le> of_int (round_half_even (q / ?u))"
    by simp
  then show ?thesis
    using u by (simp add: double_round_def)
qed

lemma ulp_le_self:
  assumes "2 powi (- 1074) \<le> q"
  shows "2 powi ulp_exponent q \<le> q"
proof -
  have pos: "0 < q" using assms two_powi_pos [of "- 1074"] by linarith
  let ?e = "\<lfloor>log 2 \<bar>q\<bar>\<rfloor>"
  have lo: "2 powi ?e \<le> q"
    using floor_log2_bounds(1) [of "\<bar>q\<bar>"] pos by simp
  show ?thesis
  proof (cases "?e - 52 \<le> - 1074")
    case True
    then have "ulp_exponent q = - 1074" by (simp add: ulp_exponent_def)
    with assms show ?thesis by simp
  next
    case False
    then have "ulp_exponent q = ?e - 52" by (simp add: ulp_exponent_def)
    moreover have "(2::real) powi (?e - 52) \<le> 2 powi ?e"
      by (intro power_int_increasing) auto
    ultimately show ?thesis using lo by simp
  qed
qed

lemma double_round_pos:
  assumes "2 powi (- 1074) \<le> q"
  shows "0 < double_round q"
proof -
  have "of_int 1 * 2 powi ulp_exponent q \<le> q"
    using ulp_le_self [OF assms] by simp
  then have "of_int 1 * 2 powi ulp_exponent q \<le> double_round q"
    by (rule double_round_ge_multiple)
  then have "2 powi ulp_exponent q \<le> double_round q"
    by simp
  then show ?thesis
    using two_powi_pos [of "ulp_exponent q"] by linarith
qed

lemma double_round_ge_24:
  assumes "24 \<le> q"
  shows "24 \<le> double_round q"
proof (cases "q < 32")
  case True
  have u: "ulp_exponent q = - 48"
    using ulp_exponent_eval [of 4 q] assms True by simp
  have "of_int (24 * 2 ^ 48) * 2 powi ulp_exponent q \<le> q"
    unfolding u using assms by simp
  then have "of_int (24 * 2 ^ 48) * 2 powi ulp_exponent q \<le> double_round q"
    by (rule double_round_ge_multiple)
  then show ?thesis
    unfolding u by simp
next
  case False
  then have q: "32 \<le> q" by simp
  have "of_int 1 * 2 powi ulp_exponent q \<le> q"
  proof -
    have "(2::real) powi (- 1074) \<le> 1"
      by (simp add: power_int_def field_simps)
    then have "2 powi (- 1074) \<le> q" using q by linarith
    then show ?thesis using ulp_le_self by simp
  qed
  have pos: "0 < q" using q by simp
  let ?e = "\<lfloor>log 2 \<bar>q\<bar>\<rfloor>"
  have lo: "2 powi ?e \<le> q"
    using floor_log2_bounds(1) [of "\<bar>q\<bar>"] pos by simp
  have "(2::real) powi 5 \<le> q" using q by simp
  then have "(2::real) powi 5 < 2 powi (?e + 1)"
    using floor_log2_bounds(2) [of "\<bar>q\<bar>"] pos by simp
  then have e: "5 < ?e + 1" by (rule two_powi_less_cancel)
  then have u: "ulp_exponent q = ?e - 52"
    by (simp add: ulp_exponent_def)
  have "(2::real) powi (?e - 52) = 2 powi ?e / 2 ^ 52"
    by (simp add: power_int_diff)
  also have "\<dots> \<le> q / 2 ^ 52"
    using lo by (simp add: divide_right_mono)
  finally have ul: "2 powi ulp_exponent q \<le> q / 2 ^ 52"
    unfolding u .
  define w where "w = (2::real) powi ulp_exponent q"
  define t where "t = q / 2 ^ 52"
  have "t \<le> q / 2"
    unfolding t_def using pos by (intro divide_left_mono) auto
  moreover have "w \<le> t"
    using ul by (simp add: w_def t_def)
  moreover have "\<bar>double_round q - q\<bar> \<le> w / 2"
    unfolding w_def by (rule double_round_error)
  ultimately show ?thesis
    using q by linarith
qed


lemma double_grid:
  assumes "is_double d" and "2 ^ 15 \<le> d"
  shows "\<exists>n::int. d = of_int n / 2 ^ 37"
proof -
  from assms(1) obtain m k where mk: "\<bar>m\<bar> < 2 ^ 53" "d = of_int m * 2 powi k"
    unfolding is_double_def by blast
  have mr: "\<bar>real_of_int m\<bar> < 2 ^ 53"
    using mk(1) by (metis of_int_abs of_int_less_numeral_power_cancel_iff)
  show ?thesis
  proof (cases "- 37 \<le> k")
    case True
    have "(2::real) powi (k + 37) = 2 powi k * 2 ^ 37"
      by (simp add: power_int_add)
    then have "(2::real) powi k = 2 powi (k + 37) / 2 ^ 37"
      by simp
    also have "\<dots> = of_int (2 ^ nat (k + 37)) / 2 ^ 37"
      using True by (simp only: two_powi_nonneg)
    finally have "d = of_int (m * 2 ^ nat (k + 37)) / 2 ^ 37"
      using mk(2) by simp
    then show ?thesis by blast
  next
    case False
    then have "k \<le> - 38" by simp
    then have "(2::real) powi k \<le> 2 powi (- 38)"
      by (intro power_int_increasing) auto
    moreover have "d \<le> \<bar>real_of_int m\<bar> * 2 powi k"
      using mk(2) two_powi_pos [of k] by (simp add: mult_right_mono)
    moreover have "\<bar>real_of_int m\<bar> * 2 powi k < 2 ^ 53 * 2 powi k"
      using mr two_powi_pos [of k] by simp
    moreover have "(2::real) ^ 53 * 2 powi k \<le> 2 ^ 53 * 2 powi (- 38)"
      using calculation(1) by simp
    moreover have "(2::real) ^ 53 * 2 powi (- 38) = 2 ^ 15"
      by (simp add: power_int_def field_simps)
    ultimately have "d < 2 ^ 15" by linarith
    with assms(2) show ?thesis by simp
  qed
qed

lemma double_round_below_24:
  assumes "is_double d" and "d < 86400"
  shows "double_round (d / 3600) < 24"
proof -
  let ?q = "d / 3600"
  consider "d \<le> 0" | "0 < d" "d < 57600" | "57600 \<le> d" by linarith
  then show ?thesis
  proof cases
    case 1
    then have "double_round ?q \<le> 0"
      by (intro double_round_nonpos) simp
    then show ?thesis by simp
  next
    case 2
    then have q: "0 < ?q" "?q < 16" by simp_all
    then have "ulp_exponent ?q \<le> - 49"
      by (intro ulp_exponent_le) auto
    then have "(2::real) powi ulp_exponent ?q \<le> 2 powi (- 49)"
      by (intro power_int_increasing) auto
    moreover have "(2::real) powi (- 49) \<le> 1"
      by (simp add: power_int_def field_simps)
    moreover have "\<bar>double_round ?q - ?q\<bar> \<le> 2 powi ulp_exponent ?q / 2"
      by (rule double_round_error)
    ultimately show ?thesis using q by linarith
  next
    case 3
    then have q: "16 \<le> ?q" "?q < 24" using assms(2) by simp_all
    have u: "ulp_exponent ?q = - 48"
      using ulp_exponent_eval [of 4 ?q] q by simp
    from 3 have "2 ^ 15 \<le> d" by simp
    with assms(1) obtain n :: int where n: "d = of_int n / 2 ^ 37"
      using double_grid by blast
    then have "real_of_int n < of_int (86400 * 2 ^ 37)"
      using assms(2) by (simp add: field_simps)
    then have "n < 86400 * 2 ^ 37" by (simp only: of_int_less_iff)
    then have "n \<le> 86400 * 2 ^ 37 - 1" by simp
    then have "real_of_int n \<le> of_int (86400 * 2 ^ 37 - 1)" by (simp only: of_int_le_iff)
    then have "d \<le> 86400 - 1 / 2 ^ 37"
      unfolding n by (simp add: field_simps)
    then have "?q \<le> 24 - 1 / (3600 * 2 ^ 37)" by (simp add: field_simps)
    moreover have "\<bar>double_round ?q - ?q\<bar> \<le> 2 powi (- 48) / 2"
      using double_round_error [of ?q] unfolding u .
    moreover have "(2::real) powi (- 48) / 2 < 1 / (3600 * 2 ^ 37)"
      by (simp add: power_int_def field_simps)
    ultimately show ?thesis by linarith
  qed
qed


lemma hours_test_on_doubles:
  assumes "is_double d" and "d \<le> 0 \<or> 1 / 10 ^ 6 \<le> d"
  shows "(double_round (d / 3600) < 24 \<and> 0 < double_round (d / 3600))
         \<longleftrightarrow> (d / 3600 < 24 \<and> 0 < d / 3600)"
proof
  assume r: "double_round (d / 3600) < 24 \<and> 0 < double_round (d / 3600)"
  have "d / 3600 < 24"
    using r double_round_ge_24 [of "d / 3600"] by (cases "24 \<le> d / 3600") auto
  moreover have "0 < d / 3600"
    using r double_round_nonpos [of "d / 3600"] by (cases "d / 3600 \<le> 0") auto
  ultimately show "d / 3600 < 24 \<and> 0 < d / 3600" ..
next
  assume e: "d / 3600 < 24 \<and> 0 < d / 3600"
  then have "d < 86400" by simp
  with assms(1) have lt: "double_round (d / 3600) < 24"
    by (rule double_round_below_24)
  from e assms(2) have "1 / 10 ^ 6 \<le> d" by auto
  then have "1 / (3600 * 10 ^ 6) \<le> d / 3600" by (simp add: field_simps)
  moreover have "(2::real) powi (- 1074) \<le> 2 powi (- 40)"
    by (intro power_int_increasing) auto
  moreover have "(2::real) powi (- 40) \<le> 1 / (3600 * 10 ^ 6)"
    by (simp add: power_int_def field_simps)
  ultimately have "2 powi (- 1074) \<le> d / 3600" by linarith
  then have "0 < double_round (d / 3600)"
    by (rule double_round_pos)
  with lt show "double_round (d / 3600) < 24 \<and> 0 < double_round (d / 3600)" ..
qed

section \<open>Properties of get_plots\<close>





lemma birthday_test_is_case_sensitive:
  "\<not> str_contains ''Birthday'' ''birthday'' \<and> str_contains ''Ann's birthday party'' ''birthday''"
  by simp


text \<open>
  The filter of \<open>get_plots\<close> tests the hours the code has stored, which are the rounded
  quotients. On durations that are doubles and are at most zero or at least a microsecond,
  as the durations of calendar events are, that test keeps the same records.
\<close>

lemma get_plots_filter_on_doubles:
  assumes "\<forall>r \<in> set df. is_double (duration r) \<and> (duration r \<le> 0 \<or> 1 / 10 ^ 6 \<le> duration r)"
  shows "filter (\<lambda>r. \<not> str_contains (event_name r) ''birthday''
                    \<and> double_round (duration r / 3600) < 24
                    \<and> 0 < double_round (duration r / 3600)) df
         = filter (\<lambda>r. \<not> excluded_spec r) df"
proof (rule filter_cong [OF refl])
  fix r :: cal_row
  assume "r \<in> set df"
  with assms have "is_double (duration r)" "duration r \<le> 0 \<or> 1 / 10 ^ 6 \<le> duration r"
    by auto
  then have "(double_round (duration r / 3600) < 24 \<and> 0 < double_round (duration r / 3600))
         \<longleftrightarrow> (duration r / 3600 < 24 \<and> 0 < duration r / 3600)"
    by (rule hours_test_on_doubles)
  moreover have "(duration r / 3600 < 24 \<and> 0 < duration r / 3600)
         \<longleftrightarrow> \<not> (duration r \<le> 0 \<or> 24 * 3600 \<le> duration r)"
    by auto
  ultimately show "(\<not> str_contains (event_name r) ''birthday''
                    \<and> double_round (duration r / 3600) < 24
                    \<and> 0 < double_round (duration r / 3600)) = (\<not> excluded_spec r)"
    by (auto simp: excluded_spec_def)
qed

lemma sum_length_groups:
  assumes "finite K" and "key ` set df \<subseteq> K"
  shows "(\<Sum>k\<in>K. length (filter (\<lambda>r. key r = k) df)) = length df"
  using assms(2)
proof (induction df)
  case Nil
  show ?case by simp
next
  case (Cons r df)
  have "(\<Sum>k\<in>K. length (filter (\<lambda>r. key r = k) (r # df)))
      = (\<Sum>k\<in>K. (if k = key r then 1 else 0) + length (filter (\<lambda>r. key r = k) df))"
    by (rule sum.cong) auto
  also have "\<dots> = (\<Sum>k\<in>K. (if k = key r then 1 else 0))
                    + (\<Sum>k\<in>K. length (filter (\<lambda>r. key r = k) df))"
    by (simp add: sum.distrib)
  also have "(\<Sum>k\<in>K. (if k = key r then 1 else 0 :: nat)) = 1"
    using Cons.prems assms(1) by simp
  finally show ?case using Cons by simp
qed

lemma sum_list_group_keys:
  fixes f :: "'k::linorder \<Rightarrow> 'v::comm_monoid_add"
  shows "sum_list (map f (group_keys key df)) = (\<Sum>k\<in>key ` set df. f k)"
proof -
  have "distinct (group_keys key df)"
    by (simp add: group_keys_def)
  then have "sum_list (map f (group_keys key df)) = sum f (set (group_keys key df))"
    by (rule sum_list_distinct_conv_sum_set)
  also have "set (group_keys key df) = key ` set df"
    by (simp add: group_keys_def)
  finally show ?thesis .
qed

lemma sum_list_ones:
  "\<forall>r \<in> set xs. f r = (1::int) \<Longrightarrow> sum_list (map f xs) = int (length xs)"
  by (induction xs) auto

lemma group_sum_count:
  "group_sum key count (with_count df) k
     = int (length (filter (\<lambda>r. key r = k) (with_count df)))"
proof -
  have "\<forall>r \<in> set (with_count df). count r = 1"
    by (auto simp: with_count_def timed_row.defs counted_row.defs)
  then have "\<forall>r \<in> set (filter (\<lambda>r. key r = k) (with_count df)). count r = 1"
    by simp
  then have "sum_list (map count (filter (\<lambda>r. key r = k) (with_count df))) =
             int (length (filter (\<lambda>r. key r = k) (with_count df)))"
    by (rule sum_list_ones)
  then show ?thesis by (simp add: group_sum_def)
qed

lemma sum_counts_by_key:
  fixes key :: "counted_row \<Rightarrow> 'k::linorder"
  shows "sum_list (map (\<lambda>k. group_sum key count (with_count df) k)
                    (group_keys key (with_count df)))
         = int (length (with_count df))"
proof -
  let ?X = "with_count df"
  have "sum_list (map (\<lambda>k. group_sum key count ?X k) (group_keys key ?X))
        = (\<Sum>k\<in>key ` set ?X. group_sum key count ?X k)"
    by (rule sum_list_group_keys)
  also have "\<dots> = (\<Sum>k\<in>key ` set ?X. int (length (filter (\<lambda>r. key r = k) ?X)))"
    by (simp add: group_sum_count)
  also have "\<dots> = int (\<Sum>k\<in>key ` set ?X. length (filter (\<lambda>r. key r = k) ?X))"
    by simp
  also have "\<dots> = int (length ?X)"
    by (simp add: sum_length_groups)
  finally show ?thesis .
qed

text \<open>
  C6. In the table aggregated by name, the counts of all groups add up to the number of
  records left by the filters; the same holds for the tables aggregated by month and by
  year.
\<close>

theorem get_plots_counts_sum:
  "sum_list (map (\<lambda>(name, n, m). n) (get_plots_cal_min df)) = int (length (get_plots_filtered df))
   \<and> sum_list (map snd (cal_month (get_plots_cal_df df))) = int (length (get_plots_filtered df))
   \<and> sum_list (map snd (cal_year_time (get_plots_cal_df df)))
       = int (length (get_plots_filtered df))"
proof -
  have len: "length (with_count (get_plots_filtered df)) = length (get_plots_filtered df)"
    by (simp add: with_count_def)
  have "sum_list (map (\<lambda>(name, n, m). n) (get_plots_cal_min df))
        = sum_list (map (\<lambda>k. group_sum event_name count (with_count (get_plots_filtered df)) k)
             (group_keys event_name (with_count (get_plots_filtered df))))"
    by (simp add: get_plots_cal_min_def get_plots_cal_df_def cal_min_def comp_def)
  moreover have "sum_list (map snd (cal_month (get_plots_cal_df df)))
        = sum_list (map (\<lambda>k. group_sum month count (with_count (get_plots_filtered df)) k)
             (group_keys month (with_count (get_plots_filtered df))))"
    by (simp add: get_plots_cal_df_def cal_month_def comp_def)
  moreover have "sum_list (map snd (cal_year_time (get_plots_cal_df df)))
        = sum_list (map (\<lambda>k. group_sum year count (with_count (get_plots_filtered df)) k)
             (group_keys year (with_count (get_plots_filtered df))))"
    by (simp add: get_plots_cal_df_def cal_year_time_def comp_def)
  ultimately show ?thesis
    by (simp only: sum_counts_by_key len)
qed

text \<open>
  C4. Three events named Standup of 30 minutes each and one event named Birthday of 1440
  minutes, all in one month and whatever their days, years and hours: the table aggregated
  by name has the single row (Standup, 3, 90), wherever the Birthday event stands among
  the others.
\<close>

theorem get_plots_standup_scenario:
  "get_plots_cal_min
     [\<lparr>day = d1, month = m, year = y1, hour = h1, event_name = ''Standup'', duration = 1800\<rparr>,
      \<lparr>day = d2, month = m, year = y2, hour = h2, event_name = ''Standup'', duration = 1800\<rparr>,
      \<lparr>day = d3, month = m, year = y3, hour = h3, event_name = ''Standup'', duration = 1800\<rparr>,
      \<lparr>day = d4, month = m, year = y4, hour = h4, event_name = ''Birthday'', duration = 86400\<rparr>]
   = [(''Standup'', 3, 90)]
   \<and> get_plots_cal_min
     [\<lparr>day = d4, month = m, year = y4, hour = h4, event_name = ''Birthday'', duration = 86400\<rparr>,
      \<lparr>day = d1, month = m, year = y1, hour = h1, event_name = ''Standup'', duration = 1800\<rparr>,
      \<lparr>day = d2, month = m, year = y2, hour = h2, event_name = ''Standup'', duration = 1800\<rparr>,
      \<lparr>day = d3, month = m, year = y3, hour = h3, event_name = ''Standup'', duration = 1800\<rparr>]
   = [(''Standup'', 3, 90)]
   \<and> get_plots_cal_min
     [\<lparr>day = d1, month = m, year = y1, hour = h1, event_name = ''Standup'', duration = 1800\<rparr>,
      \<lparr>day = d4, month = m, year = y4, hour = h4, event_name = ''Birthday'', duration = 86400\<rparr>,
      \<lparr>day = d2, month = m, year = y2, hour = h2, event_name = ''Standup'', duration = 1800\<rparr>,
      \<lparr>day = d3, month = m, year = y3, hour = h3, event_name = ''Standup'', duration = 1800\<rparr>]
   = [(''Standup'', 3, 90)]
   \<and> get_plots_cal_min
     [\<lparr>day = d1, month = m, year = y1, hour = h1, event_name = ''Standup'', duration = 1800\<rparr>,
      \<lparr>day = d2, month = m, year = y2, hour = h2, event_name = ''Standup'', duration = 1800\<rparr>,
      \<lparr>day = d4, month = m, year = y4, hour = h4, event_name = ''Birthday'', duration = 86400\<rparr>,
      \<lparr>day = d3, month = m, year = y3, hour = h3, event_name = ''Standup'', duration = 1800\<rparr>]
   = [(''Standup'', 3, 90)]"
  by (simp add: get_plots_cal_min_def get_plots_cal_df_def get_plots_filtered_def
        within_a_day_def drop_birthdays_def with_minutes_hours_def with_count_def cal_min_def
        group_keys_def group_sum_def cal_row.defs timed_row.defs counted_row.defs)

end
